theory Spec2Isabelle
  imports Complex_Main
begin

section \<open>JavaScript values\<close>

text \<open>
  The module \<^verbatim>\<open>src/validate.js\<close> is a table of eight predicates
  (\<^verbatim>\<open>validators\<close>) and an aggregator (\<^verbatim>\<open>Validator.validate\<close>). Its inputs are
  untyped JavaScript values, so the embedding starts with a datatype of them.

  A number is a double: not-a-number, an infinity, or a finite value (every finite
  double is a rational; the two zeros are both \<open>Finite 0\<close>). A string is a list
  of code units, written as a HOL \<open>string\<close> (code units up to 255). An object
  is given by its own enumerable properties, in enumeration order, and by its
  \<^verbatim>\<open>RegExp\<close> matcher when it is a pattern object; an array by its elements.
\<close>

datatype jsnum = NaN | PosInfinity | NegInfinity | Finite rat

text \<open>
  A pattern in abstract syntax. \<open>Cls\<close> is a character class given by inclusive
  ranges, \<open>Repeat r mn mx\<close> the greedy quantifier \<^verbatim>\<open>r{mn,mx}\<close> (\<open>None\<close>: no
  upper bound), \<open>Bol\<close> the assertion \<^verbatim>\<open>^\<close>.
\<close>

datatype regex =
    Eps
  | Bol
  | Cls "(char \<times> char) list"
  | Seq regex regex
  | Alt regex regex
  | Repeat regex nat "nat option"

record regexp =
  source :: regex
  ignoreCase :: bool
  global :: bool

datatype jsval =
    JUndefined
  | JNull
  | JBool bool
  | JNum jsnum
  | JStr string
  | JArr "jsval list"
  | JObj "regexp option" "(string \<times> jsval) list"

datatype js_error = TypeError | SyntaxError

text \<open>
  What a call does: the messages it wrote with \<^verbatim>\<open>Debug.log\<close>, in order, and
  then either the error it threw (\<open>Inl\<close>) or the value it returned (\<open>Inr\<close>).

  Modelled from the spec: \<^verbatim>\<open>Debug\<close> is the module's diagnostics sink, a
  dependency that is not part of the source file; it accepts plain string messages
  and never throws.
\<close>

type_synonym 'a outcome = "string list \<times> (js_error + 'a)"

subsection \<open>Operators of the language\<close>

text \<open>The \<^verbatim>\<open>typeof\<close> operator.\<close>

fun js_typeof :: "jsval \<Rightarrow> string" where
  "js_typeof JUndefined = ''undefined''"
| "js_typeof JNull = ''object''"
| "js_typeof (JBool b) = ''boolean''"
| "js_typeof (JNum n) = ''number''"
| "js_typeof (JStr s) = ''string''"
| "js_typeof (JArr xs) = ''object''"
| "js_typeof (JObj m ps) = ''object''"

text \<open>Truthiness (\<^verbatim>\<open>ToBoolean\<close>), as \<^verbatim>\<open>if\<close>, \<^verbatim>\<open>!\<close> and \<^verbatim>\<open>&&\<close> test it.\<close>

fun to_boolean :: "jsval \<Rightarrow> bool" where
  "to_boolean JUndefined = False"
| "to_boolean JNull = False"
| "to_boolean (JBool b) = b"
| "to_boolean (JNum n) = (n \<noteq> NaN \<and> n \<noteq> Finite 0)"
| "to_boolean (JStr s) = (s \<noteq> [])"
| "to_boolean (JArr xs) = True"
| "to_boolean (JObj m ps) = True"

text \<open>The \<^verbatim>\<open><\<close> of two numbers: false as soon as one side is not a number.\<close>

fun num_less :: "jsnum \<Rightarrow> jsnum \<Rightarrow> bool" where
  "num_less (Finite a) (Finite b) = (a < b)"
| "num_less (Finite a) PosInfinity = True"
| "num_less NegInfinity (Finite b) = True"
| "num_less NegInfinity PosInfinity = True"
| "num_less x y = False"

text \<open>
  The conversions that this module reaches only through coercion and that the
  embedding leaves to the engine: the rounded value of numeric text, the primitive
  value of an object (which can throw), the decimal rendering of a number, and the
  compilation of a pattern from a value that is not a pattern object. They are
  parameters: every theorem below holds for every engine.
\<close>

record engine =
  ToNumber_ext :: "jsval \<Rightarrow> js_error + jsnum"
  ToString_ext :: "jsval \<Rightarrow> js_error + string"
  RegExp_new :: "jsval \<Rightarrow> js_error + regexp"

text \<open>\<^verbatim>\<open>ToNumber\<close>: fixed by the language on the primitives below, the engine's otherwise.\<close>

fun to_number :: "engine \<Rightarrow> jsval \<Rightarrow> js_error + jsnum" where
  "to_number eng JUndefined = Inr NaN"
| "to_number eng JNull = Inr (Finite 0)"
| "to_number eng (JBool b) = Inr (Finite (if b then 1 else 0))"
| "to_number eng (JNum n) = Inr n"
| "to_number eng v = ToNumber_ext eng v"

text \<open>\<^verbatim>\<open>ToString\<close>, as string concatenation applies it to its operand.\<close>

fun to_string :: "engine \<Rightarrow> jsval \<Rightarrow> js_error + string" where
  "to_string eng (JStr s) = Inr s"
| "to_string eng JUndefined = Inr ''undefined''"
| "to_string eng JNull = Inr ''null''"
| "to_string eng (JBool b) = Inr (if b then ''true'' else ''false'')"
| "to_string eng v = ToString_ext eng v"

text \<open>The \<^verbatim>\<open>length\<close> of a string value.\<close>

fun string_length :: "jsval \<Rightarrow> nat" where
  "string_length (JStr s) = length s"
| "string_length v = 0"

text \<open>
  Reading \<^verbatim>\<open>input.length\<close> of a value that is neither \<^verbatim>\<open>undefined\<close> nor
  \<^verbatim>\<open>null\<close>: the number of elements or code units, an object's own property of
  that name, and \<^verbatim>\<open>undefined\<close> where there is none.
\<close>

fun get_length :: "jsval \<Rightarrow> jsval" where
  "get_length (JArr xs) = JNum (Finite (of_nat (length xs)))"
| "get_length (JStr s) = JNum (Finite (of_nat (length s)))"
| "get_length (JObj m ps) = (case map_of ps ''length'' of Some v \<Rightarrow> v | None \<Rightarrow> JUndefined)"
| "get_length v = JUndefined"

text \<open>
  Modelled from the spec: \<^verbatim>\<open>_.isEmpty\<close> of the collection library the module
  imports (not part of the source file). A sequence or a string is empty when its
  length is zero, an object when it has no own enumerable property; a value that is
  no collection has none.
\<close>

fun isEmpty :: "jsval \<Rightarrow> bool" where
  "isEmpty (JArr xs) = (xs = [])"
| "isEmpty (JStr s) = (s = [])"
| "isEmpty (JObj m ps) = (ps = [])"
| "isEmpty v = True"

section \<open>Numeric text\<close>

text \<open>
  \<^verbatim>\<open>parseFloat\<close> and \<^verbatim>\<open>isFinite\<close> read a string as a number. Whether the result
  is not-a-number, infinite or finite is fixed by the grammar of numeric strings and
  by the range of a double; the functions below compute it, with the exact value of
  the decimal text standing for the double nearest to it. Where the rounded value
  itself matters, in a comparison, the conversion stays with the engine
  (\<open>to_number\<close>).
\<close>

definition is_digit :: "char \<Rightarrow> bool" where
  "is_digit c = (48 \<le> (of_char c :: nat) \<and> (of_char c :: nat) \<le> 57)"

text \<open>White space and line terminators, among the code units up to 255.\<close>

definition is_space :: "char \<Rightarrow> bool" where
  "is_space c = ((of_char c :: nat) \<in> {9, 10, 11, 12, 13, 32, 160})"

definition hex_digit :: "char \<Rightarrow> nat option" where
  "hex_digit c =
     (let k = (of_char c :: nat) in
      if 48 \<le> k \<and> k \<le> 57 then Some (k - 48)
      else if 97 \<le> k \<and> k \<le> 102 then Some (k - 87)
      else if 65 \<le> k \<and> k \<le> 70 then Some (k - 55)
      else None)"

definition radix_digit :: "nat \<Rightarrow> char \<Rightarrow> nat option" where
  "radix_digit base c =
     (case hex_digit c of Some d \<Rightarrow> if d < base then Some d else None | None \<Rightarrow> None)"

definition digits_value :: "nat \<Rightarrow> string \<Rightarrow> nat" where
  "digits_value base cs =
     foldl (\<lambda>a c. base * a + (case radix_digit base c of Some d \<Rightarrow> d | None \<Rightarrow> 0)) 0 cs"

text \<open>
  The number value of a real in the range of the doubles: at or beyond
  \<^verbatim>\<open>2^1024 - 2^970\<close>, half way between the largest double and
  \<^verbatim>\<open>2^1024\<close>, rounding gives an infinity.
\<close>

definition to_double :: "rat \<Rightarrow> jsnum" where
  "to_double q =
     (if 2 ^ 1024 - 2 ^ 970 \<le> q then PosInfinity
      else if q \<le> - (2 ^ 1024 - 2 ^ 970) then NegInfinity
      else Finite q)"

definition scale10 :: "nat \<Rightarrow> int \<Rightarrow> rat" where
  "scale10 m e = (if 0 \<le> e then of_nat m * 10 ^ nat e else of_nat m / 10 ^ nat (- e))"

fun strip_sign :: "string \<Rightarrow> int \<times> string" where
  "strip_sign (c # t) =
     (if c = CHR ''+'' then (1, t) else if c = CHR ''-'' then (- 1, t) else (1, c # t))"
| "strip_sign [] = (1, [])"

text \<open>
  An exponent part: \<^verbatim>\<open>e\<close> or \<^verbatim>\<open>E\<close>, an optional sign and at least one digit.
\<close>

definition exponent_part :: "string \<Rightarrow> (int \<times> string) option" where
  "exponent_part s =
     (case s of
        [] \<Rightarrow> None
      | c # t \<Rightarrow>
          if c = CHR ''e'' \<or> c = CHR ''E''
          then (case strip_sign t of
                  (sg, t') \<Rightarrow>
                    if takeWhile is_digit t' = [] then None
                    else Some (sg * int (digits_value 10 (takeWhile is_digit t')),
                               dropWhile is_digit t'))
          else None)"

text \<open>
  The digits \<open>ds\<close>, of which the last \<open>fl\<close> stand after the point, with the
  exponent part that follows them, if one does.
\<close>

definition with_exponent :: "string \<Rightarrow> nat \<Rightarrow> string \<Rightarrow> rat \<times> string" where
  "with_exponent ds fl rest =
     (case exponent_part rest of
        Some (e, rest') \<Rightarrow> (scale10 (digits_value 10 ds) (e - int fl), rest')
      | None \<Rightarrow> (scale10 (digits_value 10 ds) (- int fl), rest))"

datatype literal = Infinite | Decimal rat

text \<open>
  The longest prefix that is an unsigned decimal literal, and what follows it:
  \<^verbatim>\<open>Infinity\<close>, digits with an optional point and fraction, or a point with a
  fraction, each with an optional exponent part.
\<close>

definition unsigned_prefix :: "string \<Rightarrow> (literal \<times> string) option" where
  "unsigned_prefix s =
     (if take 8 s = ''Infinity'' then Some (Infinite, drop 8 s)
      else
        (let ip = takeWhile is_digit s; r1 = dropWhile is_digit s in
         case r1 of
           [] \<Rightarrow> if ip = [] then None
                 else (case with_exponent ip 0 r1 of (q, rest) \<Rightarrow> Some (Decimal q, rest))
         | c # r2 \<Rightarrow>
             if c = CHR ''.''
             then (let fp = takeWhile is_digit r2; r3 = dropWhile is_digit r2 in
                   if ip = [] \<and> fp = [] then None
                   else (case with_exponent (ip @ fp) (length fp) r3 of
                           (q, rest) \<Rightarrow> Some (Decimal q, rest)))
             else if ip = [] then None
             else (case with_exponent ip 0 r1 of (q, rest) \<Rightarrow> Some (Decimal q, rest))))"

definition decimal_prefix :: "string \<Rightarrow> (jsnum \<times> string) option" where
  "decimal_prefix s =
     (case strip_sign s of
        (sg, s1) \<Rightarrow>
          (case unsigned_prefix s1 of
             None \<Rightarrow> None
           | Some (Infinite, rest) \<Rightarrow> Some (if sg < 0 then NegInfinity else PosInfinity, rest)
           | Some (Decimal q, rest) \<Rightarrow> Some (to_double (of_int sg * q), rest)))"

text \<open>
  \<^verbatim>\<open>parseFloat\<close> of a string: leading white space is skipped, the longest decimal
  literal at the start is read, and what follows it is ignored.
\<close>

definition parse_float :: "string \<Rightarrow> jsnum" where
  "parse_float s =
     (case decimal_prefix (dropWhile is_space s) of None \<Rightarrow> NaN | Some (v, rest) \<Rightarrow> v)"

definition trim :: "string \<Rightarrow> string" where
  "trim s = rev (dropWhile is_space (rev (dropWhile is_space s)))"

text \<open>A literal in base 16, 8 or 2: \<^verbatim>\<open>0x\<close>, \<^verbatim>\<open>0o\<close> or \<^verbatim>\<open>0b\<close> and digits.\<close>

definition non_decimal :: "string \<Rightarrow> rat option" where
  "non_decimal s =
     (case s of
        z # x # ds \<Rightarrow>
          if z = CHR ''0'' \<and> ds \<noteq> [] then
            (let base = (if x = CHR ''x'' \<or> x = CHR ''X'' then 16
                         else if x = CHR ''o'' \<or> x = CHR ''O'' then 8
                         else if x = CHR ''b'' \<or> x = CHR ''B'' then 2 else 0) in
             if base \<noteq> 0 \<and> list_all (\<lambda>c. radix_digit base c \<noteq> None) ds
             then Some (of_nat (digits_value base ds)) else None)
          else None
      | _ \<Rightarrow> None)"

text \<open>
  The conversion of a string to a number (ECMAScript 2015): the text without the
  white space around it must be empty (zero), a decimal literal, or a literal in
  another base; anything else is not a number.
\<close>

definition string_to_number :: "string \<Rightarrow> jsnum" where
  "string_to_number s =
     (let t = trim s in
      if t = [] then Finite 0
      else (case decimal_prefix t of
              Some (v, []) \<Rightarrow> v
            | _ \<Rightarrow> (case non_decimal t of Some q \<Rightarrow> to_double q | None \<Rightarrow> NaN)))"

text \<open>
  \<^verbatim>\<open>parseFloat(v)\<close> converts \<open>v\<close> to a string and reads the string. The rendering
  of a number reads back as that number, so a number is its own result.
\<close>

fun js_parseFloat :: "engine \<Rightarrow> jsval \<Rightarrow> js_error + jsnum" where
  "js_parseFloat eng (JNum n) = Inr n"
| "js_parseFloat eng v =
     (case to_string eng v of Inl e \<Rightarrow> Inl e | Inr s \<Rightarrow> Inr (parse_float s))"

fun is_finite :: "jsnum \<Rightarrow> bool" where
  "is_finite (Finite x) = True"
| "is_finite n = False"

text \<open>
  \<^verbatim>\<open>isFinite(v)\<close> converts \<open>v\<close> to a number and tells whether that is neither
  not-a-number nor an infinity; for a string this is decided by its text.
\<close>

fun js_isFinite :: "engine \<Rightarrow> jsval \<Rightarrow> js_error + bool" where
  "js_isFinite eng (JStr s) = Inr (is_finite (string_to_number s))"
| "js_isFinite eng v =
     (case to_number eng v of Inl e \<Rightarrow> Inl e | Inr n \<Rightarrow> Inr (is_finite n))"

section \<open>Pattern matching\<close>

text \<open>
  \<^verbatim>\<open>String.prototype.match\<close> is the engine's backtracking matcher. With the
  \<^verbatim>\<open>i\<close> flag two code units are compared after \<open>canonicalize\<close>, the upper-case
  mapping of a single code unit.
\<close>

definition canonicalize :: "char \<Rightarrow> char" where
  "canonicalize c =
     (let k = (of_char c :: nat) in
      if (97 \<le> k \<and> k \<le> 122) \<or> (224 \<le> k \<and> k \<le> 254 \<and> k \<noteq> 247)
      then char_of (k - 32) else c)"

definition lower_case :: "char \<Rightarrow> char" where
  "lower_case c =
     (let k = (of_char c :: nat) in
      if (65 \<le> k \<and> k \<le> 90) \<or> (192 \<le> k \<and> k \<le> 222 \<and> k \<noteq> 215)
      then char_of (k + 32) else c)"

definition in_ranges :: "char \<Rightarrow> (char \<times> char) list \<Rightarrow> bool" where
  "in_ranges c rs =
     list_ex (\<lambda>(lo, hi). (of_char lo :: nat) \<le> of_char c \<and> (of_char c :: nat) \<le> of_char hi) rs"

text \<open>
  Membership in a class: without \<^verbatim>\<open>i\<close> the code unit lies in a range; with it,
  some member of the class has the same canonical form, and the only candidates are
  the code unit, its upper case and its lower case.
\<close>

definition class_member :: "bool \<Rightarrow> char \<Rightarrow> (char \<times> char) list \<Rightarrow> bool" where
  "class_member ic c rs =
     (if ic then list_ex (\<lambda>a. in_ranges a rs) [c, canonicalize c, lower_case (canonicalize c)]
      else in_ranges c rs)"

primrec rsize :: "regex \<Rightarrow> nat" where
  "rsize Eps = 0"
| "rsize Bol = 0"
| "rsize (Cls rs) = 0"
| "rsize (Seq r1 r2) = Suc (rsize r1 + rsize r2)"
| "rsize (Alt r1 r2) = Suc (rsize r1 + rsize r2)"
| "rsize (Repeat r mn mx) = Suc (rsize r)"

primrec min_count :: "regex \<Rightarrow> nat" where
  "min_count Eps = 0"
| "min_count Bol = 0"
| "min_count (Cls rs) = 0"
| "min_count (Seq r1 r2) = 0"
| "min_count (Alt r1 r2) = 0"
| "min_count (Repeat r mn mx) = mn"

text \<open>
  \<open>rmatch ic n r s\<close>: the pattern \<open>r\<close> is tried at the position of an input of
  length \<open>n\<close> where the rest of the input is \<open>s\<close>. The result lists what is left
  of the input after each way of matching, in the order in which the backtracking
  matcher tries them: the first is the one it commits to when nothing follows.
  A quantifier tries one more iteration before it tries to stop, and once its minimum
  is reached it rejects an iteration that consumed nothing.
\<close>

function rmatch :: "bool \<Rightarrow> nat \<Rightarrow> regex \<Rightarrow> string \<Rightarrow> string list" where
  "rmatch ic n Eps s = [s]"
| "rmatch ic n Bol s = (if length s = n then [s] else [])"
| "rmatch ic n (Cls rs) s =
     (case s of [] \<Rightarrow> [] | c # t \<Rightarrow> if class_member ic c rs then [t] else [])"
| "rmatch ic n (Seq r1 r2) s = concat (map (rmatch ic n r2) (rmatch ic n r1 s))"
| "rmatch ic n (Alt r1 r2) s = rmatch ic n r1 s @ rmatch ic n r2 s"
| "rmatch ic n (Repeat r mn mx) s =
     (if mx = Some 0 then [s]
      else concat (map (\<lambda>s'. if mn = 0 \<and> \<not> length s' < length s then []
                              else rmatch ic n (Repeat r (mn - 1) (map_option (\<lambda>k. k - 1) mx)) s')
                       (rmatch ic n r s))
           @ (if mn = 0 then [s] else []))"
  by pat_completeness auto
termination
  by (relation "inv_image (less_than <*lex*> less_than <*lex*> less_than)
        (\<lambda>(ic, n, r, s). (rsize r, min_count r, length s))") auto

text \<open>
  The equation of the quantifier mentions the quantifier again, so it is unfolded by
  hand and not by the simplifier.
\<close>

declare rmatch.simps(6) [simp del]

text \<open>
  The first match: the leftmost position at which the pattern matches, and there the
  matcher's first way of matching; the result is the matched substring.
\<close>

fun search :: "bool \<Rightarrow> nat \<Rightarrow> regex \<Rightarrow> string \<Rightarrow> string option" where
  "search ic n r [] =
     (case rmatch ic n r [] of
        s' # rest \<Rightarrow> Some []
      | [] \<Rightarrow> None)"
| "search ic n r (c # t) =
     (case rmatch ic n r (c # t) of
        s' # rest \<Rightarrow> Some (take (length (c # t) - length s') (c # t))
      | [] \<Rightarrow> search ic n r t)"

text \<open>
  \<^verbatim>\<open>str.match(re)\<close> for a pattern object: \<^verbatim>\<open>null\<close> (\<open>None\<close>) when the pattern
  matches nowhere, and otherwise an array whose element 0 is the first matched
  substring, with the \<^verbatim>\<open>g\<close> flag (the array of all matches) as without it (the
  match followed by its groups). Only element 0 is modelled.
\<close>

definition first_match :: "regexp \<Rightarrow> string \<Rightarrow> string option" where
  "first_match re s = search (ignoreCase re) (length s) (source re) s"

text \<open>
  \<^verbatim>\<open>input.match(regex)\<close>. A value that is not a string has no callable
  \<^verbatim>\<open>match\<close>, so the call throws; a pattern object is used as it is, and any other
  argument is first compiled by the engine, which can throw.
\<close>

fun to_regexp :: "engine \<Rightarrow> jsval \<Rightarrow> js_error + regexp" where
  "to_regexp eng (JObj (Some re) ps) = Inr re"
| "to_regexp eng v = RegExp_new eng v"

fun js_match :: "engine \<Rightarrow> jsval \<Rightarrow> jsval \<Rightarrow> js_error + string option" where
  "js_match eng (JStr s) regex =
     (case to_regexp eng regex of Inl e \<Rightarrow> Inl e | Inr re \<Rightarrow> Inr (first_match re s))"
| "js_match eng v regex = Inl TypeError"

section \<open>The module\<close>

subsection \<open>CONSTANTS\<close>

definition chr :: "char \<Rightarrow> regex" where
  "chr c = Cls [(c, c)]"

definition singles :: "string \<Rightarrow> (char \<times> char) list" where
  "singles cs = map (\<lambda>c. (c, c)) cs"

definition lit :: "string \<Rightarrow> regex" where
  "lit cs = foldr (\<lambda>c r. Seq (chr c) r) cs Eps"

definition seqs :: "regex list \<Rightarrow> regex" where
  "seqs rs = foldr Seq rs Eps"

definition alts :: "regex list \<Rightarrow> regex" where
  "alts rs = foldr Alt (butlast rs) (last rs)"

definition star :: "regex \<Rightarrow> regex" where
  "star r = Repeat r 0 None"

definition plus1 :: "regex \<Rightarrow> regex" where
  "plus1 r = Repeat r 1 None"

definition opt :: "regex \<Rightarrow> regex" where
  "opt r = Repeat r 0 (Some 1)"

definition MAX_SHORT_TEXT_LENGTH :: nat where
  "MAX_SHORT_TEXT_LENGTH = 128"

definition MAX_TEXTAREA_LENGTH :: nat where
  "MAX_TEXTAREA_LENGTH = 20000"

text \<open>
  \<^verbatim>\<open>/^([a-zA-Z0-9_\-\.\+])+\@(([a-zA-Z0-9\-])+\.)+([a-zA-Z0-9]{2,5})/i\<close>
\<close>

definition EMAIL_REGEX :: regexp where
  "EMAIL_REGEX = \<lparr>
     source = seqs [
       Bol,
       plus1 (Cls ([(CHR ''a'', CHR ''z''), (CHR ''A'', CHR ''Z''), (CHR ''0'', CHR ''9'')]
                   @ singles ''_-.+'')),
       chr (CHR ''@''),
       plus1 (seqs [plus1 (Cls ([(CHR ''a'', CHR ''z''), (CHR ''A'', CHR ''Z''),
                                 (CHR ''0'', CHR ''9'')] @ singles ''-'')),
                    chr (CHR ''.'')]),
       Repeat (Cls [(CHR ''a'', CHR ''z''), (CHR ''A'', CHR ''Z''), (CHR ''0'', CHR ''9'')])
              2 (Some 5)],
     ignoreCase = True,
     global = False \<rparr>"

text \<open>
  The URL pattern, flags \<^verbatim>\<open>gi\<close>: an optional scheme, a dotted host ending in a
  top-level domain, and optional port, query, path segments, last segment with query,
  and fragment. The class of the query holds the letters of \<^verbatim>\<open>&amp;\<close> one by one,
  and the class of the fragment the range from \<^verbatim>\<open>=\<close> to \<^verbatim>\<open>_\<close>, as written in
  the source.
\<close>

definition url_query_class :: "(char \<times> char) list" where
  "url_query_class = [(CHR ''a'', CHR ''z''), (CHR ''0'', CHR ''9'')] @ singles ''+_-.%=&amp;''"

definition URL_REGEX :: regexp where
  "URL_REGEX = \<lparr>
     source = seqs [
       opt (seqs [plus1 (Cls [(CHR ''a'', CHR ''z'')]), lit ''://'']),
       seqs [
         plus1 (seqs [plus1 (Cls ([(CHR ''a'', CHR ''z''), (CHR ''0'', CHR ''9'')] @ singles ''-'')),
                      chr (CHR ''.'')]),
         alts (Repeat (Cls [(CHR ''a'', CHR ''z'')]) 2 None #
               map lit [''aero'', ''arpa'', ''biz'', ''com'', ''coop'', ''edu'', ''gov'', ''info'',
                        ''int'', ''jobs'', ''mil'', ''museum'', ''name'', ''nato'', ''net'', ''org'',
                        ''pro'', ''travel'', ''local'', ''internal''])],
       opt (seqs [chr (CHR '':''), Repeat (Cls [(CHR ''0'', CHR ''9'')]) 1 (Some 5)]),
       opt (seqs [chr (CHR ''?''), star (Cls url_query_class)]),
       star (seqs [chr (CHR ''/''),
                   plus1 (Cls ([(CHR ''a'', CHR ''z''), (CHR ''0'', CHR ''9'')]
                               @ singles ''_-.~%?&=''))]),
       opt (seqs [chr (CHR ''/''),
                  star (Cls ([(CHR ''a'', CHR ''z''), (CHR ''0'', CHR ''9'')] @ singles ''_-.'')),
                  opt (seqs [chr (CHR ''?''), star (Cls url_query_class)])]),
       opt (seqs [chr (CHR ''#''),
                  star (Cls ([(CHR ''a'', CHR ''z''), (CHR ''A'', CHR ''Z''), (CHR ''0'', CHR ''9'')]
                             @ singles ''!$&'' @ [(CHR 0x27, CHR 0x27)] @ singles ''()*+.''
                             @ [(CHR ''='', CHR ''_'')] @ singles ''~:@/?''))])],
     ignoreCase = True,
     global = True \<rparr>"

subsection \<open>The ambient page\<close>

text \<open>
  What the module reads from its surroundings.

  Modelled from the spec: \<^verbatim>\<open>Sequencer.$container\<close> is the external field-lookup
  collaborator, not part of the source file. \<open>find\<close> is its lookup by selector,
  giving back any value (the code tests its truthiness), and \<open>val\<close> reads the
  current string value of what was given back: \<open>Some\<close> of the string, \<open>None\<close>
  for \<^verbatim>\<open>undefined\<close> where there is no field to read; it throws when what was
  given back has no such method.

  \<open>inherited\<close> stands for the prototype chain of the object \<^verbatim>\<open>validators\<close>:
  a property read \<^verbatim>\<open>validators[ruleType]\<close> that finds none of the eight own
  properties continues there, and \<open>inherited k = Some f\<close> says that it finds the
  built-in function \<open>f\<close> (as called with two arguments and no receiver).
\<close>

record ambient =
  find :: "jsval \<Rightarrow> jsval"
  val :: "jsval \<Rightarrow> js_error + string option"
  inherited :: "string \<Rightarrow> (jsval \<Rightarrow> jsval \<Rightarrow> js_error + jsval) option"

subsection \<open>The validators\<close>

definition isRequired :: "jsval \<Rightarrow> jsval \<Rightarrow> bool" where
  "isRequired input validationRequired =
     (if validationRequired = JBool False then True
      else if js_typeof input = ''undefined'' \<or> input = JNull \<or> input = JStr [] then False
      else if js_typeof input = ''object'' \<and> isEmpty input then False
      else if js_typeof input = ''array'' \<and> get_length input = JNum (Finite 0) then False
      else True)"

text \<open>
  \<^verbatim>\<open>!isNaN(parseFloat(input)) && isFinite(input)\<close>: the second operand is
  evaluated only when the first is true, and converts \<open>input\<close> itself to a number.
\<close>

definition isNumeric :: "engine \<Rightarrow> jsval \<Rightarrow> bool outcome" where
  "isNumeric eng input =
     (case js_parseFloat eng input of
        Inl e \<Rightarrow> ([], Inl e)
      | Inr p \<Rightarrow>
          if p = NaN then ([], Inr False)
          else (case js_isFinite eng input of
                  Inl e \<Rightarrow> ([], Inl e)
                | Inr b \<Rightarrow> ([], Inr b)))"

definition hasMinLength :: "engine \<Rightarrow> jsval \<Rightarrow> jsval \<Rightarrow> bool outcome" where
  "hasMinLength eng input min' =
     (if js_typeof input \<noteq> ''string''
      then ([''String validator cannot parse a non-string''], Inr False)
      else
        (let inputLength = string_length input in
         if to_boolean min'
         then (case to_number eng min' of
                 Inl e \<Rightarrow> ([], Inl e)
               | Inr m \<Rightarrow> if num_less (Finite (of_nat inputLength)) m
                          then ([], Inr False) else ([], Inr True))
         else ([], Inr True)))"

definition hasMaxLength :: "engine \<Rightarrow> jsval \<Rightarrow> jsval \<Rightarrow> bool outcome" where
  "hasMaxLength eng input max' =
     (if js_typeof input \<noteq> ''string''
      then ([''String validator cannot parse a non-string''], Inr False)
      else
        (let inputLength = string_length input in
         if to_boolean max'
         then (case to_number eng max' of
                 Inl e \<Rightarrow> ([], Inl e)
               | Inr m \<Rightarrow> if num_less m (Finite (of_nat inputLength))
                          then ([], Inr False) else ([], Inr True))
         else ([], Inr True)))"

definition matchesRegularExpression :: "engine \<Rightarrow> jsval \<Rightarrow> jsval \<Rightarrow> bool outcome" where
  "matchesRegularExpression eng input regex =
     (case js_match eng input regex of
        Inl e \<Rightarrow> ([], Inl e)
      | Inr matches \<Rightarrow>
          (case matches of
             Some m0 \<Rightarrow> if JStr m0 = input then ([], Inr True) else ([], Inr False)
           | None \<Rightarrow> ([], Inr False)))"

definition isEmail :: "engine \<Rightarrow> jsval \<Rightarrow> bool outcome" where
  "isEmail eng input = matchesRegularExpression eng input (JObj (Some EMAIL_REGEX) [])"

text \<open>What \<open>val\<close> read, as a JavaScript value.\<close>

fun read_result :: "string option \<Rightarrow> jsval" where
  "read_result (Some s) = JStr s"
| "read_result None = JUndefined"

text \<open>
  The last comparison is \<^verbatim>\<open>input === originalEmail\<close> with a string or
  \<^verbatim>\<open>undefined\<close> on the right, which holds exactly of the equal value.
\<close>

definition confirmEmail :: "engine \<Rightarrow> ambient \<Rightarrow> jsval \<Rightarrow> jsval \<Rightarrow> bool outcome" where
  "confirmEmail eng amb input selector =
     (let originalEmailField = find amb selector in
      if \<not> to_boolean originalEmailField
      then (case to_string eng selector of
              Inl e \<Rightarrow> ([], Inl e)
            | Inr sel \<Rightarrow>
                ([''Validator: No original email in '' @ sel
                  @ '' to compare against. Responding with 'valid' to handle.''], Inr True))
      else (case val amb originalEmailField of
              Inl e \<Rightarrow> ([], Inl e)
            | Inr originalEmail \<Rightarrow>
                if input = read_result originalEmail then ([], Inr True)
                else ([], Inr False)))"

definition isUrl :: "engine \<Rightarrow> jsval \<Rightarrow> bool outcome" where
  "isUrl eng input = matchesRegularExpression eng input (JObj (Some URL_REGEX) [])"

subsection \<open>The registry and the aggregator\<close>

definition rule_names :: "string list" where
  "rule_names = [''isRequired'', ''isNumeric'', ''hasMinLength'', ''hasMaxLength'',
                 ''matchesRegularExpression'', ''isEmail'', ''confirmEmail'', ''isUrl'']"

text \<open>A predicate's boolean as the JavaScript value that the call returns.\<close>

fun returned :: "bool outcome \<Rightarrow> jsval outcome" where
  "returned (lg, Inl e) = (lg, Inl e)"
| "returned (lg, Inr b) = (lg, Inr (JBool b))"

text \<open>
  The property read \<^verbatim>\<open>validators[ruleType]\<close>: \<open>Some f\<close> when it yields a
  function, which the aggregator calls with \<open>(input, ruleVal)\<close>; \<open>None\<close> when it
  yields \<^verbatim>\<open>undefined\<close> or anything else that is not a function. \<^verbatim>\<open>isNumeric\<close>,
  \<^verbatim>\<open>isEmail\<close> and \<^verbatim>\<open>isUrl\<close> declare one parameter and ignore the second
  argument.
\<close>

definition validators ::
  "engine \<Rightarrow> ambient \<Rightarrow> string \<Rightarrow> (jsval \<Rightarrow> jsval \<Rightarrow> jsval outcome) option" where
  "validators eng amb ruleType =
     (if ruleType = ''isRequired''
        then Some (\<lambda>input ruleVal. ([], Inr (JBool (isRequired input ruleVal))))
      else if ruleType = ''isNumeric''
        then Some (\<lambda>input ruleVal. returned (isNumeric eng input))
      else if ruleType = ''hasMinLength''
        then Some (\<lambda>input ruleVal. returned (hasMinLength eng input ruleVal))
      else if ruleType = ''hasMaxLength''
        then Some (\<lambda>input ruleVal. returned (hasMaxLength eng input ruleVal))
      else if ruleType = ''matchesRegularExpression''
        then Some (\<lambda>input ruleVal. returned (matchesRegularExpression eng input ruleVal))
      else if ruleType = ''isEmail''
        then Some (\<lambda>input ruleVal. returned (isEmail eng input))
      else if ruleType = ''confirmEmail''
        then Some (\<lambda>input ruleVal. returned (confirmEmail eng amb input ruleVal))
      else if ruleType = ''isUrl''
        then Some (\<lambda>input ruleVal. returned (isUrl eng input))
      else (case inherited amb ruleType of
              Some f \<Rightarrow> Some (\<lambda>input ruleVal. ([], f input ruleVal))
            | None \<Rightarrow> None))"

text \<open>
  Calling what the property read gave: a value that is not a function cannot be
  called, and the attempt throws a \<open>TypeError\<close>.
\<close>

definition call ::
  "(jsval \<Rightarrow> jsval \<Rightarrow> jsval outcome) option \<Rightarrow> jsval \<Rightarrow> jsval \<Rightarrow> jsval outcome" where
  "call fn a b = (case fn of Some f \<Rightarrow> f a b | None \<Rightarrow> ([], Inl TypeError))"

text \<open>
  The function that \<^verbatim>\<open>validate\<close> hands to \<^verbatim>\<open>_.each\<close>, with the array
  \<^verbatim>\<open>failures\<close> it pushes to as explicit state. Its first \<^verbatim>\<open>if\<close> logs when the
  registry has no function under \<open>ruleType\<close>; its second calls what the registry
  gave in either case, and pushes when the call returned exactly \<^verbatim>\<open>false\<close>.
\<close>

definition callback ::
  "engine \<Rightarrow> ambient \<Rightarrow> jsval \<Rightarrow> string list \<Rightarrow> jsval \<Rightarrow> string \<Rightarrow> string list outcome" where
  "callback eng amb input failures ruleVal ruleType =
     (let thisValidator = validators eng amb ruleType;
          lg0 = (if thisValidator = None then [''Type: '' @ ruleType @ '' not recognized'']
                 else [])
      in case call thisValidator input ruleVal of
           (lg, Inl e) \<Rightarrow> (lg0 @ lg, Inl e)
         | (lg, Inr r) \<Rightarrow>
             (lg0 @ lg, Inr (if r = JBool False then failures @ [ruleType] else failures)))"

text \<open>
  Modelled from the spec: \<^verbatim>\<open>_.each\<close> of the collection library, applied to the
  options mapping: it calls the function once per own enumerable property, in
  enumeration order, with the property's value and name. The mapping is the list of
  its properties in that order. An error thrown by a call ends the iteration.
\<close>

fun each :: "('s \<Rightarrow> jsval \<Rightarrow> string \<Rightarrow> 's outcome) \<Rightarrow> (string \<times> jsval) list \<Rightarrow> 's \<Rightarrow> 's outcome" where
  "each f [] st = ([], Inr st)"
| "each f ((ruleType, ruleVal) # rest) st =
     (case f st ruleVal ruleType of
        (lg, Inl e) \<Rightarrow> (lg, Inl e)
      | (lg, Inr st') \<Rightarrow> (case each f rest st' of (lg', r) \<Rightarrow> (lg @ lg', r)))"

definition validate ::
  "engine \<Rightarrow> ambient \<Rightarrow> jsval \<Rightarrow> (string \<times> jsval) list \<Rightarrow> jsval \<Rightarrow> jsval outcome" where
  "validate eng amb input options returnSpecifics =
     (case each (callback eng amb input) options [] of
        (lg, Inl e) \<Rightarrow> (lg, Inl e)
      | (lg, Inr failures) \<Rightarrow>
          (lg, Inr (if length failures > 0
                    then (if returnSpecifics = JBool True then JArr (map JStr failures)
                          else JBool False)
                    else JBool True)))"

text \<open>
  A page with one field, under the selector that the source documents as the default,
  whose lookup answers \<^verbatim>\<open>null\<close> where no field matches.
\<close>

definition sample_page :: ambient where
  "sample_page = \<lparr>
     find = (\<lambda>selector. if selector = JStr ''#ugc_submission_email''
                         then JObj None [(''value'', JStr ''a@b.com'')] else JNull),
     val = (\<lambda>field. case field of
                       JObj m ps \<Rightarrow> (case map_of ps ''value'' of
                                       Some (JStr s) \<Rightarrow> Inr (Some s)
                                     | _ \<Rightarrow> Inl TypeError)
                     | _ \<Rightarrow> Inl TypeError),
     inherited = (\<lambda>k. None) \<rparr>"

text \<open>
  The same page behind a lookup of the kind that the calls
  \<^verbatim>\<open>$container.find(selector)\<close> and \<^verbatim>\<open>.val()\<close> are written against: it
  answers with the collection of the matching fields, an object with a
  \<^verbatim>\<open>length\<close> and the fields under their indices, also when no field matches;
  \<open>val\<close> reads the first field of the collection and gives \<^verbatim>\<open>undefined\<close> for
  an empty one.
\<close>

definition collection_page :: ambient where
  "collection_page = \<lparr>
     find = (\<lambda>selector. if selector = JStr ''#ugc_submission_email''
                         then JObj None [(''length'', JNum (Finite 1)),
                                         (''0'', JObj None [(''value'', JStr ''a@b.com'')])]
                         else JObj None [(''length'', JNum (Finite 0))]),
     val = (\<lambda>collection. case collection of
                            JObj m ps \<Rightarrow>
                              (case map_of ps ''0'' of
                                 Some (JObj m' fs) \<Rightarrow>
                                   (case map_of fs ''value'' of
                                      Some (JStr s) \<Rightarrow> Inr (Some s)
                                    | _ \<Rightarrow> Inr None)
                               | _ \<Rightarrow> Inr None)
                          | _ \<Rightarrow> Inl TypeError),
     inherited = (\<lambda>k. None) \<rparr>"

subsection \<open>What the aggregator is specified to compute\<close>

text \<open>
  The outcome of the predicate that the aggregator invokes for one pair of the
  options: the error it throws or the value it returns.
\<close>

definition invoked :: "engine \<Rightarrow> ambient \<Rightarrow> jsval \<Rightarrow> string \<times> jsval \<Rightarrow> js_error + jsval" where
  "invoked eng amb input kv = snd (call (validators eng amb (fst kv)) input (snd kv))"

text \<open>
  The failures sequence in the words of the specification: the names of the rules,
  in the order of the options, whose predicate yields \<^verbatim>\<open>false\<close>.
\<close>

definition spec_failures ::
  "engine \<Rightarrow> ambient \<Rightarrow> jsval \<Rightarrow> (string \<times> jsval) list \<Rightarrow> string list" where
  "spec_failures eng amb input options =
     map fst (filter (\<lambda>kv. invoked eng amb input kv = Inr (JBool False)) options)"

section \<open>Properties of the validators\<close>

lemma typeof_string_iff: "js_typeof v = ''string'' \<longleftrightarrow> (\<exists>s. v = JStr s)"
  by (cases v) simp_all

lemma typeof_not_array: "js_typeof v \<noteq> ''array''"
  by (cases v) simp_all



text \<open>
  C9. An empty array is rejected whenever \<open>validationRequired\<close> is not exactly
  \<^verbatim>\<open>false\<close>. The branch that tests \<^verbatim>\<open>typeof input === 'array'\<close> is never
  taken, since \<^verbatim>\<open>typeof\<close> yields \<^verbatim>\<open>'array'\<close> for no value; the rejection comes
  from the branch before it, as \<^verbatim>\<open>typeof\<close> of an array is \<^verbatim>\<open>'object'\<close> and the
  empty array is empty.
\<close>

theorem isRequired_empty_array:
  "validationRequired \<noteq> JBool False \<Longrightarrow>
     isRequired (JArr []) validationRequired = False
     \<and> js_typeof (JArr []) = ''object'' \<and> isEmpty (JArr [])
     \<and> js_typeof v \<noteq> ''array''"
  by (simp add: isRequired_def typeof_not_array)

theorem isRequired_empty_array_witness:
  "JBool True \<noteq> JBool False \<and> isRequired (JArr []) (JBool True) = False
   \<and> isRequired (JArr []) JUndefined = False
   \<and> js_typeof (JArr []) = ''object'' \<and> isEmpty (JArr [])
   \<and> js_typeof (JArr [JNum (Finite 1)]) \<noteq> ''array''"
  using isRequired_empty_array [of "JBool True" "JArr [JNum (Finite 1)]"]
        isRequired_empty_array [of JUndefined "JArr [JNum (Finite 1)]"]
  by simp

text \<open>
  C7. For an input that is not a string, \<open>hasMinLength\<close> and \<open>hasMaxLength\<close>
  each write one diagnostic and return \<^verbatim>\<open>false\<close>, whatever the argument; neither
  throws.
\<close>

theorem length_rules_reject_non_string:
  "(\<forall>s. input \<noteq> JStr s) \<Longrightarrow>
     hasMinLength eng input a = ([''String validator cannot parse a non-string''], Inr False)
     \<and> hasMaxLength eng input a = ([''String validator cannot parse a non-string''], Inr False)"
  by (simp add: hasMinLength_def hasMaxLength_def typeof_string_iff)

theorem length_rules_reject_non_string_witness:
  "\<forall>eng. hasMinLength eng (JNum (Finite 5)) (JNum (Finite 3))
            = ([''String validator cannot parse a non-string''], Inr False)
        \<and> hasMaxLength eng (JNum (Finite 5)) (JNum (Finite 3))
            = ([''String validator cannot parse a non-string''], Inr False)
        \<and> hasMinLength eng JUndefined (JObj None [(''toString'', JNull)])
            = ([''String validator cannot parse a non-string''], Inr False)
        \<and> hasMaxLength eng (JArr [JStr ''ab'']) JUndefined
            = ([''String validator cannot parse a non-string''], Inr False)"
  using length_rules_reject_non_string [of "JNum (Finite 5)" _ "JNum (Finite 3)"]
        length_rules_reject_non_string [of JUndefined _ "JObj None [(''toString'', JNull)]"]
        length_rules_reject_non_string [of "JArr [JStr ''ab'']" _ JUndefined]
  by simp

text \<open>
  C3, as stated, fails at \<open>max = 0\<close>: the guard \<^verbatim>\<open>max && ...\<close> is false for
  \<open>0\<close>, the lengths are not compared, and the one-letter string passes although its
  length exceeds \<open>0\<close>.
\<close>

theorem hasMaxLength_zero_counterexample:
  "\<forall>eng. hasMaxLength eng (JStr ''a'') (JNum (Finite (of_int 0))) = ([], Inr True)
        \<and> (0::int) \<le> 0 \<and> (0::int) < int (length ''a'')"
  by (simp add: hasMaxLength_def)

text \<open>
  C3, amended. For a string \<open>s\<close> and an integer \<open>max \<ge> 1\<close>, \<open>hasMaxLength\<close>
  returns \<^verbatim>\<open>false\<close> if and only if the length of \<open>s\<close> is greater than \<open>max\<close>;
  for \<open>max = 0\<close> it returns \<^verbatim>\<open>true\<close> for every string. It logs nothing and does
  not throw.
\<close>

theorem hasMaxLength_spec:
  "(1 \<le> m \<longrightarrow>
      hasMaxLength eng (JStr s) (JNum (Finite (of_int m))) = ([], Inr (\<not> m < int (length s))))
   \<and> hasMaxLength eng (JStr s) (JNum (Finite (of_int 0))) = ([], Inr True)"
  by (auto simp add: hasMaxLength_def)

theorem hasMaxLength_spec_witness:
  "\<forall>eng. hasMaxLength eng (JStr ''abc'') (JNum (Finite 2)) = ([], Inr False)
        \<and> hasMaxLength eng (JStr ''ab'') (JNum (Finite 2)) = ([], Inr True)
        \<and> hasMaxLength eng (JStr ''abc'') (JNum (Finite 0)) = ([], Inr True)"
  using hasMaxLength_spec [of 2 _ "''abc''"] hasMaxLength_spec [of 2 _ "''ab''"]
  by simp

text \<open>
  The minimum is guarded in the same way, where \<open>0\<close> asks for nothing; a string
  whose length lies within the two bounds passes both rules.
\<close>

lemma hasMinLength_spec:
  "hasMinLength eng (JStr s) (JNum (Finite (of_int m))) = ([], Inr (m = 0 \<or> \<not> int (length s) < m))"
  by (auto simp add: hasMinLength_def)

lemma length_rules_within_bounds:
  "mn \<le> int (length s) \<Longrightarrow> int (length s) \<le> mx \<Longrightarrow>
     hasMinLength eng (JStr s) (JNum (Finite (of_int mn))) = ([], Inr True)
     \<and> hasMaxLength eng (JStr s) (JNum (Finite (of_int mx))) = ([], Inr True)"
  by (auto simp add: hasMinLength_def hasMaxLength_def)

lemma numeric_text_examples:
  "parse_float ''42'' = Finite 42" "string_to_number ''42'' = Finite 42"
  "parse_float ''abc'' = NaN"
  "parse_float ''Infinity'' = PosInfinity" "string_to_number ''Infinity'' = PosInfinity"
  "parse_float ''12abc'' = Finite 12" "string_to_number ''12abc'' = NaN"
  "parse_float [] = NaN" "string_to_number [] = Finite 0"
  by (simp_all add: parse_float_def string_to_number_def trim_def decimal_prefix_def
        unsigned_prefix_def with_exponent_def exponent_part_def non_decimal_def is_space_def
        is_digit_def digits_value_def radix_digit_def hex_digit_def scale10_def to_double_def)

lemma numeric_text_overflow:
  "parse_float ''1e400'' = PosInfinity" "string_to_number ''1e400'' = PosInfinity"
  by (simp_all add: parse_float_def string_to_number_def trim_def decimal_prefix_def
        unsigned_prefix_def with_exponent_def exponent_part_def non_decimal_def is_space_def
        is_digit_def digits_value_def radix_digit_def hex_digit_def scale10_def to_double_def)

lemma numeric_text_of_primitives:
  "parse_float ''undefined'' = NaN" "parse_float ''null'' = NaN"
  "parse_float ''true'' = NaN" "parse_float ''false'' = NaN"
  by (simp_all add: parse_float_def decimal_prefix_def unsigned_prefix_def is_space_def
        is_digit_def)

lemma isNumeric_string:
  "isNumeric eng (JStr s) = ([], Inr (parse_float s \<noteq> NaN \<and> is_finite (string_to_number s)))"
  by (simp add: isNumeric_def)

lemma isNumeric_number: "isNumeric eng (JNum n) = ([], Inr (is_finite n))"
  by (cases n) (simp_all add: isNumeric_def)

text \<open>
  C8, as stated, fails whichever of the two conversions in \<open>isNumeric\<close> is taken
  for "parses": \<^verbatim>\<open>parseFloat("12abc")\<close> is the finite number \<open>12\<close> and
  \<^verbatim>\<open>Number("")\<close> is the finite number \<open>0\<close>, and \<open>isNumeric\<close> returns
  \<^verbatim>\<open>false\<close> for both strings.
\<close>

theorem isNumeric_counterexample:
  "\<forall>eng. isNumeric eng (JStr ''12abc'') = ([], Inr False)
        \<and> parse_float ''12abc'' = Finite 12
        \<and> isNumeric eng (JStr []) = ([], Inr False)
        \<and> string_to_number [] = Finite 0"
  by (simp add: isNumeric_string numeric_text_examples)

text \<open>
  C8, amended. For a string, \<open>isNumeric\<close> returns \<^verbatim>\<open>true\<close> if and only if
  \<^verbatim>\<open>parseFloat\<close> of it is a number and the string as a whole converts to a finite
  number; for a number, if and only if it is finite; for \<^verbatim>\<open>undefined\<close>,
  \<^verbatim>\<open>null\<close> and the booleans it returns \<^verbatim>\<open>false\<close>. So \<^verbatim>\<open>"42"\<close> passes, and
  \<^verbatim>\<open>"abc"\<close>, \<^verbatim>\<open>"Infinity"\<close> and \<^verbatim>\<open>"1e400"\<close> (beyond the range of a double) fail.
\<close>

theorem isNumeric_spec:
  "isNumeric eng (JStr s) = ([], Inr (parse_float s \<noteq> NaN \<and> is_finite (string_to_number s)))
   \<and> isNumeric eng (JNum n) = ([], Inr (is_finite n))
   \<and> isNumeric eng JUndefined = ([], Inr False)
   \<and> isNumeric eng JNull = ([], Inr False)
   \<and> isNumeric eng (JBool b) = ([], Inr False)
   \<and> isNumeric eng (JStr ''42'') = ([], Inr True)
   \<and> isNumeric eng (JStr ''abc'') = ([], Inr False)
   \<and> isNumeric eng (JStr ''Infinity'') = ([], Inr False)
   \<and> isNumeric eng (JStr ''1e400'') = ([], Inr False)"
proof -
  have prim: "isNumeric eng JUndefined = ([], Inr False)" "isNumeric eng JNull = ([], Inr False)"
    "isNumeric eng (JBool b) = ([], Inr False)"
    using numeric_text_of_primitives by (simp_all add: isNumeric_def)
  show ?thesis
    using prim
    by (simp add: isNumeric_string isNumeric_number numeric_text_examples numeric_text_overflow)
qed

text \<open>
  What \<open>confirmEmail\<close> does with the answer of the lookup: a falsy answer is logged
  and passes; a truthy answer is read, nothing is logged, and the input passes if and
  only if it is what was read.
\<close>

lemma confirmEmail_cases:
  "(\<not> to_boolean (find amb (JStr selector)) \<longrightarrow>
      confirmEmail eng amb input (JStr selector)
        = ([''Validator: No original email in '' @ selector
            @ '' to compare against. Responding with 'valid' to handle.''], Inr True))
   \<and> (to_boolean (find amb (JStr selector)) \<and> val amb (find amb (JStr selector)) = Inr original \<longrightarrow>
      confirmEmail eng amb input (JStr selector) = ([], Inr (input = read_result original)))"
  by (simp add: confirmEmail_def Let_def)

text \<open>
  C4 does not hold of the code. The lookup that \<open>confirmEmail\<close> calls answers a
  missing field with an empty collection, and an empty collection is an object, which
  is truthy: the test \<^verbatim>\<open>!originalEmailField\<close> is false, the warning that announces
  the answer \<^verbatim>\<open>'valid'\<close> is not written, \<^verbatim>\<open>val()\<close> gives \<^verbatim>\<open>undefined\<close>, and
  \<open>confirmEmail\<close> returns \<^verbatim>\<open>false\<close> for the string input. Where the field exists
  the comparison is as specified.
\<close>

theorem confirmEmail_missing_field_fails_closed:
  "\<forall>eng. find collection_page (JStr ''#missing'') = JObj None [(''length'', JNum (Finite 0))]
        \<and> to_boolean (find collection_page (JStr ''#missing''))
        \<and> val collection_page (find collection_page (JStr ''#missing'')) = Inr None
        \<and> confirmEmail eng collection_page (JStr ''a@b.com'') (JStr ''#missing'') = ([], Inr False)
        \<and> confirmEmail eng collection_page (JStr ''a@b.com'') (JStr ''#ugc_submission_email'')
            = ([], Inr True)
        \<and> confirmEmail eng collection_page (JStr ''x@b.com'') (JStr ''#ugc_submission_email'')
            = ([], Inr False)"
  by (simp add: confirmEmail_def collection_page_def)

section \<open>Properties of the matcher\<close>

text \<open>What a pattern leaves over is never longer than what it was given.\<close>

lemma rmatch_length: "s' \<in> set (rmatch ic n r s) \<Longrightarrow> length s' \<le> length s"
proof (induction ic n r s arbitrary: s' rule: rmatch.induct)
  case (1 ic n s)
  then show ?case by simp
next
  case (2 ic n s)
  then show ?case by (simp split: if_splits)
next
  case (3 ic n rs s)
  then show ?case by (auto split: list.splits if_splits)
next
  case (4 ic n r1 r2 s)
  from "4.prems" obtain t
    where t: "t \<in> set (rmatch ic n r1 s)" and s': "s' \<in> set (rmatch ic n r2 t)"
    by auto
  from "4.IH"(1) [OF t] have "length t \<le> length s" .
  moreover from "4.IH"(2) [OF t s'] have "length s' \<le> length t" .
  ultimately show ?case by simp
next
  case (5 ic n r1 r2 s)
  then show ?case by auto
next
  case (6 ic n r mn mx s)
  have eq: "rmatch ic n (Repeat r mn mx) s =
     (if mx = Some 0 then [s]
      else concat (map (\<lambda>s'. if mn = 0 \<and> \<not> length s' < length s then []
                              else rmatch ic n (Repeat r (mn - 1) (map_option (\<lambda>k. k - 1) mx)) s')
                       (rmatch ic n r s))
           @ (if mn = 0 then [s] else []))"
    by (rule rmatch.simps(6))
  show ?case
  proof (cases "mx = Some 0")
    case True
    from "6.prems" have "s' \<in> set [s]" unfolding eq using True by simp
    then show ?thesis by simp
  next
    case False
    from "6.prems" have
      "s' \<in> set (concat (map (\<lambda>s'. if mn = 0 \<and> \<not> length s' < length s then []
                              else rmatch ic n (Repeat r (mn - 1) (map_option (\<lambda>k. k - 1) mx)) s')
                       (rmatch ic n r s)) @ (if mn = 0 then [s] else []))"
      unfolding eq using False by simp
    then consider
      (iter) t where "t \<in> set (rmatch ic n r s)" "\<not> (mn = 0 \<and> \<not> length t < length s)"
        "s' \<in> set (rmatch ic n (Repeat r (mn - 1) (map_option (\<lambda>k. k - 1) mx)) t)"
      | (stop) "s' = s"
      by (auto split: if_splits)
    then show ?thesis
    proof cases
      case iter
      from "6.IH"(1) [OF False iter(1)] have "length t \<le> length s" .
      moreover from "6.IH"(2) [OF False iter(1) iter(2) iter(3)]
      have "length s' \<le> length t" .
      ultimately show ?thesis by simp
    next
      case stop
      then show ?thesis by simp
    qed
  qed
qed

lemma search_length: "search ic n r s = Some m \<Longrightarrow> length m \<le> length s"
proof (induction s)
  case Nil
  then show ?case by (auto split: list.splits)
next
  case (Cons c t)
  then show ?case by (auto split: list.splits)
qed

text \<open>
  The first match is the whole input exactly when the pattern matches at position 0
  and the matcher's first way of matching there consumes everything.
\<close>

lemma search_whole_iff:
  "search ic n r s = Some s \<longleftrightarrow> (\<exists>rest. rmatch ic n r s = [] # rest)"
proof (cases s)
  case Nil
  have "\<And>s' rest. rmatch ic n r [] = s' # rest \<Longrightarrow> s' = []"
  proof -
    fix s' rest assume "rmatch ic n r [] = s' # rest"
    then have "s' \<in> set (rmatch ic n r [])" by simp
    from rmatch_length [OF this] show "s' = []" by simp
  qed
  with Nil show ?thesis by (auto split: list.splits)
next
  case (Cons c t)
  show ?thesis
  proof (cases "rmatch ic n r (c # t)")
    case Nil
    have "search ic n r t \<noteq> Some (c # t)"
    proof
      assume "search ic n r t = Some (c # t)"
      from search_length [OF this] show False by simp
    qed
    with Nil Cons show ?thesis by simp
  next
    case (Cons s' rest)
    then have "s' \<in> set (rmatch ic n r (c # t))" by simp
    then have le: "length s' \<le> length (c # t)" by (rule rmatch_length)
    have whole: "take (length (c # t) - length s') (c # t) = c # t \<longleftrightarrow> s' = []"
    proof
      assume "take (length (c # t) - length s') (c # t) = c # t"
      then have "length (take (length (c # t) - length s') (c # t)) = length (c # t)" by simp
      then have "min (length (c # t)) (length (c # t) - length s') = length (c # t)"
        by (simp only: length_take)
      with le have "length s' = 0" by arith
      then show "s' = []" by simp
    next
      assume "s' = []" then show "take (length (c # t) - length s') (c # t) = c # t" by simp
    qed
    have "search ic n r (c # t) = Some (take (length (c # t) - length s') (c # t))"
      using Cons by simp
    with whole Cons \<open>s = c # t\<close> show ?thesis by simp
  qed
qed

lemma first_match_whole_iff:
  "first_match re s = Some s \<longleftrightarrow>
     (\<exists>rest. rmatch (ignoreCase re) (length s) (source re) s = [] # rest)"
  by (simp add: first_match_def search_whole_iff)

lemma matchesRegularExpression_string:
  "to_regexp eng regex = Inr re \<Longrightarrow>
     matchesRegularExpression eng (JStr s) regex = ([], Inr (first_match re s = Some s))"
  by (simp add: matchesRegularExpression_def split: option.splits)

lemma matchesRegularExpression_bad_pattern:
  "to_regexp eng regex = Inl e \<Longrightarrow> matchesRegularExpression eng (JStr s) regex = ([], Inl e)"
  by (simp add: matchesRegularExpression_def)

lemma matchesRegularExpression_non_string:
  "(\<forall>s. input \<noteq> JStr s) \<Longrightarrow> matchesRegularExpression eng input regex = ([], Inl TypeError)"
  by (cases input) (simp_all add: matchesRegularExpression_def)

lemma first_match_abc:
  "first_match \<lparr>source = lit ''abc'', ignoreCase = False, global = False\<rparr> ''abc'' = Some ''abc''"
  by code_simp

lemma first_match_abcd:
  "first_match \<lparr>source = lit ''abc'', ignoreCase = False, global = False\<rparr> ''abcd'' = Some ''abc''"
  by code_simp

lemma first_match_xabc:
  "first_match \<lparr>source = lit ''abc'', ignoreCase = False, global = False\<rparr> ''xabc'' = Some ''abc''"
  by code_simp

text \<open>
  C6. For a string input and a pattern, \<open>matchesRegularExpression\<close> returns
  \<^verbatim>\<open>true\<close> if and only if the pattern has a match in the input and the first
  matched substring is the entire input; a first match that is only part of the input
  gives \<^verbatim>\<open>false\<close>. The pattern \<^verbatim>\<open>/abc/\<close> accepts \<^verbatim>\<open>"abc"\<close> and rejects
  \<^verbatim>\<open>"abcd"\<close>.
\<close>

theorem matchesRegularExpression_spec:
  "(to_regexp eng regex = Inr re \<longrightarrow>
      matchesRegularExpression eng (JStr s) regex = ([], Inr (first_match re s = Some s))
      \<and> (\<forall>m. first_match re s = Some m \<and> m \<noteq> s \<longrightarrow>
             matchesRegularExpression eng (JStr s) regex = ([], Inr False)))
   \<and> matchesRegularExpression eng (JStr ''abc'')
        (JObj (Some \<lparr>source = lit ''abc'', ignoreCase = False, global = False\<rparr>) [])
      = ([], Inr True)
   \<and> matchesRegularExpression eng (JStr ''abcd'')
        (JObj (Some \<lparr>source = lit ''abc'', ignoreCase = False, global = False\<rparr>) [])
      = ([], Inr False)"
  by (auto simp add: matchesRegularExpression_string first_match_abc first_match_abcd)

theorem matchesRegularExpression_spec_witness:
  "\<forall>eng. to_regexp eng (JObj (Some \<lparr>source = lit ''abc'', ignoreCase = False, global = False\<rparr>) [])
            = Inr \<lparr>source = lit ''abc'', ignoreCase = False, global = False\<rparr>
        \<and> first_match \<lparr>source = lit ''abc'', ignoreCase = False, global = False\<rparr> ''xabc''
            = Some ''abc''
        \<and> matchesRegularExpression eng (JStr ''xabc'')
             (JObj (Some \<lparr>source = lit ''abc'', ignoreCase = False, global = False\<rparr>) [])
           = ([], Inr False)"
  using first_match_xabc matchesRegularExpression_spec
      [of _ "JObj (Some \<lparr>source = lit ''abc'', ignoreCase = False, global = False\<rparr>) []"
          "\<lparr>source = lit ''abc'', ignoreCase = False, global = False\<rparr>" "''xabc''"]
  by simp

text \<open>The fixed email pattern on the two addresses of the specification.\<close>

lemma first_match_email_ok: "first_match EMAIL_REGEX ''a@b.com'' = Some ''a@b.com''"
  by code_simp

lemma first_match_email_none: "first_match EMAIL_REGEX ''not-an-email'' = None"
  by code_simp

lemma isEmail_examples:
  "isEmail eng (JStr ''a@b.com'') = ([], Inr True)
   \<and> isEmail eng (JStr ''not-an-email'') = ([], Inr False)"
  by (simp add: isEmail_def matchesRegularExpression_string first_match_email_ok
        first_match_email_none)

section \<open>Properties of the aggregator\<close>

lemma validators_known: "k \<in> set rule_names \<Longrightarrow> \<exists>f. validators eng amb k = Some f"
  by (auto simp add: rule_names_def validators_def)

lemma validators_unknown:
  "k \<notin> set rule_names \<Longrightarrow> inherited amb k = None \<Longrightarrow> validators eng amb k = None"
  by (simp add: rule_names_def validators_def)

lemma snd_callback:
  "snd (callback eng amb input failures ruleVal ruleType) =
     (case invoked eng amb input (ruleType, ruleVal) of
        Inl e \<Rightarrow> Inl e
      | Inr r \<Rightarrow> Inr (if r = JBool False then failures @ [ruleType] else failures))"
  by (simp add: callback_def invoked_def Let_def split: prod.splits sum.splits)

lemma snd_each_Cons:
  "snd (each f ((ruleType, ruleVal) # rest) st) =
     (case snd (f st ruleVal ruleType) of
        Inl e \<Rightarrow> Inl e
      | Inr st' \<Rightarrow> snd (each f rest st'))"
  by (simp split: prod.splits sum.splits)

text \<open>When every predicate returns, the loop ends with the specified failures.\<close>

lemma each_callback_returns:
  "\<forall>kv\<in>set options. \<exists>r. invoked eng amb input kv = Inr r \<Longrightarrow>
     snd (each (callback eng amb input) options acc)
       = Inr (acc @ spec_failures eng amb input options)"
proof (induction options arbitrary: acc)
  case Nil
  then show ?case by (simp add: spec_failures_def)
next
  case (Cons kv rest)
  obtain k v where kv: "kv = (k, v)" by (cases kv)
  from Cons.prems kv obtain r where r: "invoked eng amb input (k, v) = Inr r" by auto
  from Cons.prems have rest: "\<forall>kv\<in>set rest. \<exists>r. invoked eng amb input kv = Inr r" by simp
  show ?case
    using r Cons.IH [OF rest] kv
    by (simp add: snd_each_Cons snd_callback spec_failures_def del: each.simps)
qed

text \<open>An error thrown by a predicate leaves the loop and the aggregator.\<close>

lemma each_callback_throws:
  "\<exists>kv\<in>set options. \<exists>e. invoked eng amb input kv = Inl e \<Longrightarrow>
     \<exists>e. snd (each (callback eng amb input) options acc) = Inl e"
proof (induction options arbitrary: acc)
  case Nil
  then show ?case by simp
next
  case (Cons kv rest)
  obtain k v where kv: "kv = (k, v)" by (cases kv)
  show ?case
  proof (cases "invoked eng amb input (k, v)")
    case (Inl e)
    with kv show ?thesis by (simp add: snd_each_Cons snd_callback del: each.simps)
  next
    case (Inr r)
    with Cons.prems kv have "\<exists>kv\<in>set rest. \<exists>e. invoked eng amb input kv = Inl e" by auto
    from Cons.IH [OF this] Inr kv show ?thesis
      by (simp add: snd_each_Cons snd_callback del: each.simps)
  qed
qed

text \<open>The error that leaves the loop is that of the first predicate that throws.\<close>

lemma each_callback_first_thrower:
  "\<forall>p\<in>set before. \<exists>r. invoked eng amb input p = Inr r \<Longrightarrow>
   invoked eng amb input kv = Inl e \<Longrightarrow>
     snd (each (callback eng amb input) (before @ kv # rest) acc) = Inl e"
proof (induction before arbitrary: acc)
  case Nil
  obtain k v where kv: "kv = (k, v)" by (cases kv)
  with Nil show ?case by (simp add: snd_each_Cons snd_callback del: each.simps)
next
  case (Cons p before)
  obtain k v where p: "p = (k, v)" by (cases p)
  from Cons.prems p obtain r where r: "invoked eng amb input (k, v) = Inr r" by auto
  from Cons.prems have ret: "\<forall>p\<in>set before. \<exists>r. invoked eng amb input p = Inr r" by simp
  from Cons.IH [OF ret Cons.prems(2)] r p show ?case
    by (simp add: snd_each_Cons snd_callback del: each.simps)
qed

text \<open>Whatever the loop pushes is a key of the options.\<close>

lemma each_callback_keys:
  "snd (each (callback eng amb input) options acc) = Inr fs \<Longrightarrow>
     \<exists>new. fs = acc @ new \<and> set new \<subseteq> fst ` set options"
proof (induction options arbitrary: acc)
  case Nil
  then show ?case by simp
next
  case (Cons kv rest)
  obtain k v where kv: "kv = (k, v)" by (cases kv)
  from Cons.prems kv obtain r where r: "invoked eng amb input (k, v) = Inr r"
    and rest: "snd (each (callback eng amb input) rest
                 (if r = JBool False then acc @ [k] else acc)) = Inr fs"
    by (auto simp add: snd_each_Cons snd_callback simp del: each.simps split: sum.splits)
  from Cons.IH [OF rest] obtain new where
    new: "fs = (if r = JBool False then acc @ [k] else acc) @ new" "set new \<subseteq> fst ` set rest"
    by blast
  show ?case
  proof (cases "r = JBool False")
    case True
    with new kv have "fs = acc @ (k # new)" "set (k # new) \<subseteq> fst ` set (kv # rest)" by auto
    then show ?thesis by blast
  next
    case False
    with new kv have "fs = acc @ new" "set new \<subseteq> fst ` set (kv # rest)" by auto
    then show ?thesis by blast
  qed
qed

lemma snd_validate:
  "snd (validate eng amb input options returnSpecifics) =
     (case snd (each (callback eng amb input) options []) of
        Inl e \<Rightarrow> Inl e
      | Inr failures \<Rightarrow>
          Inr (if failures = [] then JBool True
               else if returnSpecifics = JBool True then JArr (map JStr failures)
               else JBool False))"
  by (simp add: validate_def split: prod.splits sum.splits)

lemma spec_failures_empty_iff:
  "spec_failures eng amb input options = [] \<longleftrightarrow>
     (\<forall>kv\<in>set options. invoked eng amb input kv \<noteq> Inr (JBool False))"
  by (auto simp add: spec_failures_def filter_empty_conv)

lemma invoked_isRequired:
  "invoked eng amb input (''isRequired'', v) = Inr (JBool (isRequired input v))"
  by (simp add: invoked_def call_def validators_def)

lemma invoked_hasMinLength:
  "invoked eng amb input (''hasMinLength'', v) = snd (returned (hasMinLength eng input v))"
  by (simp add: invoked_def call_def validators_def)

lemma invoked_isEmail:
  "invoked eng amb input (''isEmail'', v) = snd (returned (isEmail eng input))"
  by (simp add: invoked_def call_def validators_def)

text \<open>
  The example of the specification: against \<^verbatim>\<open>"42"\<close>, the numeric rule passes
  and the minimum length \<open>5\<close> fails.
\<close>

lemma validate_example:
  "validate eng amb (JStr ''42'')
     [(''isNumeric'', JBool True), (''hasMinLength'', JNum (Finite 5))] (JBool True)
   = ([], Inr (JArr [JStr ''hasMinLength'']))"
  by (simp add: validate_def callback_def call_def validators_def isNumeric_string
        numeric_text_examples hasMinLength_def)

text \<open>
  C1 does not hold of the code. A key that the registry does not know makes the
  callback log \<^verbatim>\<open>'Type: ... not recognized'\<close> and then call the missing function
  all the same, which throws: \<open>validate\<close> ends with a \<open>TypeError\<close> instead of
  skipping the key, and the rules after it are not evaluated. Wherever such a key
  stands in the options, \<open>validate\<close> does not return.
\<close>

theorem validate_unknown_rule_throws:
  "k \<notin> set rule_names \<Longrightarrow> inherited amb k = None \<Longrightarrow>
     validate eng amb input ((k, v) # rest) returnSpecifics
       = ([''Type: '' @ k @ '' not recognized''], Inl TypeError)
     \<and> (\<forall>options. (k, v) \<in> set options \<longrightarrow>
           (\<exists>e. snd (validate eng amb input options returnSpecifics) = Inl e))"
proof (intro conjI allI impI)
  assume k: "k \<notin> set rule_names" "inherited amb k = None"
  then have none: "validators eng amb k = None" by (rule validators_unknown)
  then show "validate eng amb input ((k, v) # rest) returnSpecifics
       = ([''Type: '' @ k @ '' not recognized''], Inl TypeError)"
    by (simp add: validate_def callback_def call_def)
  fix options assume "(k, v) \<in> set options"
  moreover from none have "invoked eng amb input (k, v) = Inl TypeError"
    by (simp add: invoked_def call_def)
  ultimately have "\<exists>kv\<in>set options. \<exists>e. invoked eng amb input kv = Inl e" by blast
  from each_callback_throws [OF this, of "[]"]
  show "\<exists>e. snd (validate eng amb input options returnSpecifics) = Inl e"
    by (auto simp add: snd_validate)
qed

theorem validate_unknown_rule_throws_witness:
  "\<forall>eng. validate eng sample_page (JStr ''x'') [(''foo'', JBool True), (''isRequired'', JBool True)]
            (JBool True) = ([''Type: foo not recognized''], Inl TypeError)
        \<and> (\<exists>e. snd (validate eng sample_page (JStr ''x'')
                  [(''isRequired'', JBool True), (''foo'', JBool True)] (JBool True)) = Inl e)"
proof
  fix eng
  have k: "''foo'' \<notin> set rule_names" "inherited sample_page ''foo'' = None"
    by (simp_all add: rule_names_def sample_page_def)
  from validate_unknown_rule_throws
         [OF k, of eng "JStr ''x''" "JBool True" "[(''isRequired'', JBool True)]" "JBool True"]
  show "validate eng sample_page (JStr ''x'') [(''foo'', JBool True), (''isRequired'', JBool True)]
            (JBool True) = ([''Type: foo not recognized''], Inl TypeError)
        \<and> (\<exists>e. snd (validate eng sample_page (JStr ''x'')
                  [(''isRequired'', JBool True), (''foo'', JBool True)] (JBool True)) = Inl e)"
    by simp
qed

text \<open>
  C2, as stated, fails where an invoked predicate throws. With the input
  \<^verbatim>\<open>undefined\<close> and the known rules \<^verbatim>\<open>isRequired\<close> and \<^verbatim>\<open>isEmail\<close>, the
  first predicate returns \<^verbatim>\<open>false\<close>, and the second throws a \<open>TypeError\<close> from
  \<^verbatim>\<open>input.match\<close>: \<open>validate\<close> throws it too, where C2 has it return
  \<^verbatim>\<open>false\<close> or the failed names.
\<close>

theorem validate_throws_counterexample:
  "\<forall>eng amb returnSpecifics.
     validate eng amb JUndefined [(''isRequired'', JBool True), (''isEmail'', JBool True)]
       returnSpecifics = ([], Inl TypeError)
     \<and> invoked eng amb JUndefined (''isRequired'', JBool True) = Inr (JBool False)
     \<and> set (map fst [(''isRequired'', JBool True), (''isEmail'', JBool True)]) \<subseteq> set rule_names"
  by (simp add: validate_def callback_def call_def validators_def isEmail_def
        matchesRegularExpression_def isRequired_def invoked_def rule_names_def)

text \<open>
  C2, amended. For options whose keys are all known rule names: when every invoked
  predicate returns, \<open>validate\<close> returns \<^verbatim>\<open>true\<close> if each returned a value other
  than \<^verbatim>\<open>false\<close>, and otherwise the names of the failed rules, in the order of the
  options, when \<open>returnSpecifics\<close> is exactly \<^verbatim>\<open>true\<close>, and \<^verbatim>\<open>false\<close> when it
  is anything else. When a predicate throws and every predicate before it in the
  options returned, \<open>validate\<close> throws that predicate's error. For the empty options
  \<open>validate\<close> returns \<^verbatim>\<open>true\<close> and logs nothing.
\<close>

theorem validate_spec:
  "\<forall>kv\<in>set options. fst kv \<in> set rule_names \<Longrightarrow>
   ((\<forall>kv\<in>set options. \<exists>r. invoked eng amb input kv = Inr r) \<longrightarrow>
      snd (validate eng amb input options returnSpecifics)
        = Inr (if \<forall>kv\<in>set options. invoked eng amb input kv \<noteq> Inr (JBool False) then JBool True
               else if returnSpecifics = JBool True
                    then JArr (map JStr (spec_failures eng amb input options))
               else JBool False))
   \<and> (options = before @ kv # rest
        \<and> (\<forall>p\<in>set before. \<exists>r. invoked eng amb input p = Inr r)
        \<and> invoked eng amb input kv = Inl e \<longrightarrow>
        snd (validate eng amb input options returnSpecifics) = Inl e)
   \<and> validate eng amb input [] returnSpecifics = ([], Inr (JBool True))"
proof (intro conjI impI)
  assume "\<forall>kv\<in>set options. \<exists>r. invoked eng amb input kv = Inr r"
  from each_callback_returns [OF this, of "[]"]
  show "snd (validate eng amb input options returnSpecifics)
        = Inr (if \<forall>kv\<in>set options. invoked eng amb input kv \<noteq> Inr (JBool False) then JBool True
               else if returnSpecifics = JBool True
                    then JArr (map JStr (spec_failures eng amb input options))
               else JBool False)"
    by (simp add: snd_validate spec_failures_empty_iff)
next
  assume "options = before @ kv # rest
        \<and> (\<forall>p\<in>set before. \<exists>r. invoked eng amb input p = Inr r)
        \<and> invoked eng amb input kv = Inl e"
  then have opts: "options = before @ kv # rest"
    and ret: "\<forall>p\<in>set before. \<exists>r. invoked eng amb input p = Inr r"
    and thr: "invoked eng amb input kv = Inl e"
    by simp_all
  from each_callback_first_thrower [OF ret thr, of rest "[]"] opts
  show "snd (validate eng amb input options returnSpecifics) = Inl e"
    by (simp add: snd_validate)
next
  show "validate eng amb input [] returnSpecifics = ([], Inr (JBool True))"
    by (simp add: validate_def)
qed

theorem validate_spec_witness:
  "\<forall>eng amb.
     set [''isRequired'', ''hasMinLength'', ''isEmail''] \<subseteq> set rule_names
     \<and> snd (validate eng amb (JStr ''42'')
            [(''isRequired'', JBool True), (''hasMinLength'', JNum (Finite 5))] (JBool True))
       = Inr (JArr [JStr ''hasMinLength''])
     \<and> snd (validate eng amb (JStr ''42'')
            [(''isRequired'', JBool True), (''hasMinLength'', JNum (Finite 5))] JUndefined)
       = Inr (JBool False)
     \<and> snd (validate eng amb (JStr ''42'')
            [(''isRequired'', JBool True), (''hasMinLength'', JNum (Finite 2))] (JBool True))
       = Inr (JBool True)
     \<and> snd (validate eng amb JUndefined
            [(''isRequired'', JBool True), (''isEmail'', JBool True),
             (''hasMinLength'', JNum (Finite 2))] (JBool True)) = Inl TypeError"
proof (intro allI)
  fix eng amb
  have a: "invoked eng amb (JStr ''42'') (''isRequired'', JBool True) = Inr (JBool True)"
    by (simp add: invoked_isRequired isRequired_def)
  have b: "invoked eng amb (JStr ''42'') (''hasMinLength'', JNum (Finite 5)) = Inr (JBool False)"
    by (simp add: invoked_hasMinLength hasMinLength_def)
  have c: "invoked eng amb (JStr ''42'') (''hasMinLength'', JNum (Finite 2)) = Inr (JBool True)"
    by (simp add: invoked_hasMinLength hasMinLength_def)
  have d: "invoked eng amb JUndefined (''isEmail'', JBool True) = Inl TypeError"
    by (simp add: invoked_isEmail isEmail_def matchesRegularExpression_def)
  have d': "invoked eng amb JUndefined (''isRequired'', JBool True) = Inr (JBool False)"
    by (simp add: invoked_isRequired isRequired_def)
  have known:
    "\<forall>kv\<in>set [(''isRequired'', JBool True), (''hasMinLength'', JNum (Finite 5))].
        fst kv \<in> set rule_names"
    "\<forall>kv\<in>set [(''isRequired'', JBool True), (''hasMinLength'', JNum (Finite 2))].
        fst kv \<in> set rule_names"
    "\<forall>kv\<in>set [(''isRequired'', JBool True), (''isEmail'', JBool True),
                (''hasMinLength'', JNum (Finite 2))]. fst kv \<in> set rule_names"
    by (simp_all add: rule_names_def)
  have names: "set [''isRequired'', ''hasMinLength'', ''isEmail''] \<subseteq> set rule_names"
    by (simp add: rule_names_def)
  have r1: "snd (validate eng amb (JStr ''42'')
            [(''isRequired'', JBool True), (''hasMinLength'', JNum (Finite 5))] (JBool True))
       = Inr (JArr [JStr ''hasMinLength''])"
    using a b validate_spec [OF known(1), of eng amb "JStr ''42''" "JBool True"]
    by (simp add: spec_failures_def)
  have r2: "snd (validate eng amb (JStr ''42'')
            [(''isRequired'', JBool True), (''hasMinLength'', JNum (Finite 5))] JUndefined)
       = Inr (JBool False)"
    using a b validate_spec [OF known(1), of eng amb "JStr ''42''" JUndefined]
    by (simp add: spec_failures_def)
  have r3: "snd (validate eng amb (JStr ''42'')
            [(''isRequired'', JBool True), (''hasMinLength'', JNum (Finite 2))] (JBool True))
       = Inr (JBool True)"
    using a c validate_spec [OF known(2), of eng amb "JStr ''42''" "JBool True"]
    by (simp add: spec_failures_def)
  have r4: "snd (validate eng amb JUndefined
            [(''isRequired'', JBool True), (''isEmail'', JBool True),
             (''hasMinLength'', JNum (Finite 2))] (JBool True)) = Inl TypeError"
    using d d' validate_spec [OF known(3), of eng amb JUndefined "JBool True"
        "[(''isRequired'', JBool True)]" "(''isEmail'', JBool True)"
        "[(''hasMinLength'', JNum (Finite 2))]" TypeError]
    by simp
  from names r1 r2 r3 r4
  show "set [''isRequired'', ''hasMinLength'', ''isEmail''] \<subseteq> set rule_names
     \<and> snd (validate eng amb (JStr ''42'')
            [(''isRequired'', JBool True), (''hasMinLength'', JNum (Finite 5))] (JBool True))
       = Inr (JArr [JStr ''hasMinLength''])
     \<and> snd (validate eng amb (JStr ''42'')
            [(''isRequired'', JBool True), (''hasMinLength'', JNum (Finite 5))] JUndefined)
       = Inr (JBool False)
     \<and> snd (validate eng amb (JStr ''42'')
            [(''isRequired'', JBool True), (''hasMinLength'', JNum (Finite 2))] (JBool True))
       = Inr (JBool True)
     \<and> snd (validate eng amb JUndefined
            [(''isRequired'', JBool True), (''isEmail'', JBool True),
             (''hasMinLength'', JNum (Finite 2))] (JBool True)) = Inl TypeError"
    by blast
qed

text \<open>
  C10. With \<open>returnSpecifics\<close> exactly \<^verbatim>\<open>true\<close>, \<open>validate\<close> never returns
  \<^verbatim>\<open>false\<close> and never returns an empty sequence: whatever it returns is either
  \<^verbatim>\<open>true\<close> or a non-empty sequence of rule names, each a key of the options.
\<close>

theorem validate_specifics_shape:
  "snd (validate eng amb input options (JBool True)) \<noteq> Inr (JBool False)
   \<and> snd (validate eng amb input options (JBool True)) \<noteq> Inr (JArr [])
   \<and> (\<forall>r. snd (validate eng amb input options (JBool True)) = Inr r \<longrightarrow>
          r = JBool True
          \<or> (\<exists>names. names \<noteq> [] \<and> set names \<subseteq> fst ` set options \<and> r = JArr (map JStr names)))"
proof (cases "snd (each (callback eng amb input) options [])")
  case (Inl e)
  then show ?thesis by (simp add: snd_validate)
next
  case (Inr failures)
  from each_callback_keys [OF this] have keys: "set failures \<subseteq> fst ` set options" by auto
  show ?thesis
  proof (cases "failures = []")
    case True
    with Inr show ?thesis by (simp add: snd_validate)
  next
    case False
    with Inr keys show ?thesis by (auto simp add: snd_validate)
  qed
qed

theorem validate_specifics_shape_witness:
  "\<forall>eng amb.
     snd (validate eng amb (JStr ''42'')
            [(''isRequired'', JBool True), (''hasMinLength'', JNum (Finite 5))] (JBool True))
       = Inr (JArr [JStr ''hasMinLength''])
     \<and> (\<exists>names. names \<noteq> []
           \<and> set names \<subseteq> fst ` set [(''isRequired'', JBool True), (''hasMinLength'', JNum (Finite 5))]
           \<and> JArr [JStr ''hasMinLength''] = JArr (map JStr names))"
proof (intro allI)
  fix eng amb
  have ev: "snd (validate eng amb (JStr ''42'')
            [(''isRequired'', JBool True), (''hasMinLength'', JNum (Finite 5))] (JBool True))
       = Inr (JArr [JStr ''hasMinLength''])"
    by (simp add: validate_def callback_def call_def validators_def isRequired_def hasMinLength_def)
  from validate_specifics_shape
         [of eng amb "JStr ''42''" "[(''isRequired'', JBool True), (''hasMinLength'', JNum (Finite 5))]"]
  have "\<forall>r. snd (validate eng amb (JStr ''42'')
            [(''isRequired'', JBool True), (''hasMinLength'', JNum (Finite 5))] (JBool True)) = Inr r \<longrightarrow>
          r = JBool True
          \<or> (\<exists>names. names \<noteq> []
                \<and> set names \<subseteq> fst ` set [(''isRequired'', JBool True), (''hasMinLength'', JNum (Finite 5))]
                \<and> r = JArr (map JStr names))"
    by blast
  with ev have "\<exists>names. names \<noteq> []
           \<and> set names \<subseteq> fst ` set [(''isRequired'', JBool True), (''hasMinLength'', JNum (Finite 5))]
           \<and> JArr [JStr ''hasMinLength''] = JArr (map JStr names)"
    by blast
  with ev show "snd (validate eng amb (JStr ''42'')
            [(''isRequired'', JBool True), (''hasMinLength'', JNum (Finite 5))] (JBool True))
       = Inr (JArr [JStr ''hasMinLength''])
     \<and> (\<exists>names. names \<noteq> []
           \<and> set names \<subseteq> fst ` set [(''isRequired'', JBool True), (''hasMinLength'', JNum (Finite 5))]
           \<and> JArr [JStr ''hasMinLength''] = JArr (map JStr names))"
    by blast
qed

end
